theory Spec2Isabelle
  imports Main "HOL-Library.Word"
begin

section \<open>Values of the Go runtime that both programs use\<close>

text \<open>
  A \<^verbatim>\<open>[]byte\<close> is a list of bytes; Isabelle's \<^typ>\<open>char\<close> is a byte, so that the
  string constants of the source can be written as literals.
\<close>

type_synonym bytes = string

text \<open>A Go \<^verbatim>\<open>error\<close> value; \<^verbatim>\<open>nil\<close> is \<^term>\<open>None\<close> of \<^typ>\<open>'a option\<close>.\<close>

datatype error = Err string

text \<open>
  An \<^verbatim>\<open>io.Reader\<close> is the bytes it delivers and how the stream ends: with \<^verbatim>\<open>io.EOF\<close>
  (\<^term>\<open>None\<close>) or with an error. \<^verbatim>\<open>io.ReadAll\<close> returns the bytes read so far and
  the error; \<^verbatim>\<open>io.EOF\<close> is reported as \<^verbatim>\<open>nil\<close>.
\<close>

datatype reader = Reader (rdata: bytes) (rerr: "error option")

definition io_ReadAll :: "reader \<Rightarrow> bytes \<times> error option" where
  "io_ReadAll rd = (rdata rd, rerr rd)"

text \<open>
  \<^verbatim>\<open>http.Header\<close> and \<^verbatim>\<open>url.Values\<close> are both \<^verbatim>\<open>map[string][]string\<close>; their
  \<^verbatim>\<open>Get\<close> returns the first value of the key, and the empty string when there is none.
\<close>

type_synonym go_values = "string \<rightharpoonup> string list"

definition Values_Get :: "go_values \<Rightarrow> string \<Rightarrow> string" where
  "Values_Get m k = (case m k of None \<Rightarrow> [] | Some [] \<Rightarrow> [] | Some (v # _) \<Rightarrow> v)"

text \<open>The fields of \<^verbatim>\<open>*http.Request\<close> that the handlers read.\<close>

record Request =
  Method :: string
  URL_Path :: string
  Header :: go_values
  URL_Query :: go_values
  Body :: reader

text \<open>
  \<^verbatim>\<open>http.ResponseWriter\<close>. The first \<^verbatim>\<open>WriteHeader\<close> fixes the status; a later one
  is ignored by net/http (it logs a superfluous call), which the field \<open>superfluous\<close>
  records. A \<^verbatim>\<open>Write\<close> before any \<^verbatim>\<open>WriteHeader\<close> sends status 200 first.
\<close>

record ResponseWriter =
  w_Header :: go_values
  wroteHeader :: bool
  status :: nat
  written :: bytes
  superfluous :: "nat list"

definition new_ResponseWriter :: ResponseWriter where
  "new_ResponseWriter =
     \<lparr>w_Header = Map.empty, wroteHeader = False, status = 0, written = [], superfluous = []\<rparr>"

definition WriteHeader :: "nat \<Rightarrow> ResponseWriter \<Rightarrow> ResponseWriter" where
  "WriteHeader code w =
     (if wroteHeader w then w\<lparr>superfluous := superfluous w @ [code]\<rparr>
      else w\<lparr>wroteHeader := True, status := code\<rparr>)"

definition Write :: "bytes \<Rightarrow> ResponseWriter \<Rightarrow> ResponseWriter" where
  "Write data w =
     (let w1 = (if wroteHeader w then w else WriteHeader 200 w)
      in w1\<lparr>written := written w1 @ data\<rparr>)"

definition Header_Set :: "string \<Rightarrow> string \<Rightarrow> ResponseWriter \<Rightarrow> ResponseWriter" where
  "Header_Set k v w = w\<lparr>w_Header := (w_Header w)(k \<mapsto> [v])\<rparr>"

text \<open>
  The response of a handler, read off the writer once the handler has returned: the
  status (200 when the handler never set one) and the bytes it wrote as the body. What
  net/http then does on the wire (it sends no body in answer to a HEAD request, for
  one) is outside the model.
\<close>

definition resp_status :: "ResponseWriter \<Rightarrow> nat" where
  "resp_status w = (if wroteHeader w then status w else 200)"

definition resp_body :: "ResponseWriter \<Rightarrow> bytes" where
  "resp_body w = written w"

text \<open>
  \<^verbatim>\<open>fmt.Sprintf("%d", n)\<close> for an \<^verbatim>\<open>int64\<close>: the decimal digits, with a minus sign
  for a negative number.
\<close>

fun show_nat :: "nat \<Rightarrow> string" where
  "show_nat n =
     (if n < 10 then [char_of (48 + n)]
      else show_nat (n div 10) @ [char_of (48 + n mod 10)])"

declare show_nat.simps [simp del]

definition show_int :: "int \<Rightarrow> string" where
  "show_int i = (if i < 0 then CHR ''-'' # show_nat (nat (- i)) else show_nat (nat i))"

section \<open>Constants of the source\<close>

abbreviation uploadPath :: string where "uploadPath \<equiv> ''/upload''"
abbreviation readFilePath :: string where "readFilePath \<equiv> ''/read''"
abbreviation contentTypeTextXML :: string where "contentTypeTextXML \<equiv> ''text/xml''"
abbreviation contentTypeApplicationXML :: string where
  "contentTypeApplicationXML \<equiv> ''application/xml''"

abbreviation http_MethodGet :: string where "http_MethodGet \<equiv> ''GET''"
abbreviation http_MethodPost :: string where "http_MethodPost \<equiv> ''POST''"
abbreviation http_StatusOK :: nat where "http_StatusOK \<equiv> 200"
abbreviation http_StatusBadRequest :: nat where "http_StatusBadRequest \<equiv> 400"
abbreviation http_StatusMethodNotAllowed :: nat where "http_StatusMethodNotAllowed \<equiv> 405"
abbreviation http_StatusInternalServerError :: nat where
  "http_StatusInternalServerError \<equiv> 500"

section \<open>Functions shared by the two programs\<close>

definition writeNotFound :: "ResponseWriter \<Rightarrow> ResponseWriter" where
  "writeNotFound w = Write ''<p>Oops, you walked the wrong path</p>'' w"

section \<open>The validating program (main.go)\<close>

record xmlPayload =
  UserFrom :: string
  UserTo :: string
  Message :: string

text \<open>
  The tokenizer of encoding/xml is a library, not part of the repository: it is a
  parameter of the model. Given the request body it returns a syntax (or read) error,
  or the child elements of the first element as pairs of name and character data, in
  document order.
\<close>

type_synonym xml_tokenizer = "reader \<Rightarrow> error + (string \<times> string) list"

text \<open>
  Modelled from the spec: \<^verbatim>\<open>Decoder.Decode\<close> of encoding/xml, which is not among the
  sources. It "maps three named leaf elements into the record", the names being the
  struct tags of \<^verbatim>\<open>xmlPayload\<close>, and leaves every other field of the value it was
  given as it is.
\<close>

definition assign_field :: "string \<times> string \<Rightarrow> xmlPayload \<Rightarrow> xmlPayload" where
  "assign_field e v =
     (if fst e = ''UserFrom'' then v\<lparr>UserFrom := snd e\<rparr>
      else if fst e = ''UserTo'' then v\<lparr>UserTo := snd e\<rparr>
      else if fst e = ''Message'' then v\<lparr>Message := snd e\<rparr>
      else v)"

definition Decode :: "xml_tokenizer \<Rightarrow> reader \<Rightarrow> xmlPayload \<Rightarrow> xmlPayload \<times> error option" where
  "Decode tok rd v =
     (case tok rd of
        Inl e \<Rightarrow> (v, Some e)
      | Inr elems \<Rightarrow> (fold assign_field elems v, None))"

text \<open>\<^verbatim>\<open>handleUpload\<close> of main.go; \<^verbatim>\<open>xmlPayload{}\<close> has three empty strings.\<close>

definition handleUpload_v :: "xml_tokenizer \<Rightarrow> ResponseWriter \<Rightarrow> Request \<Rightarrow> ResponseWriter" where
  "handleUpload_v tok w r =
     (let v = \<lparr>UserFrom = [], UserTo = [], Message = []\<rparr>
      in case Decode tok (Body r) v of
           (_, Some err) \<Rightarrow> WriteHeader http_StatusBadRequest w
         | (_, None) \<Rightarrow> WriteHeader http_StatusOK w)"

text \<open>\<^verbatim>\<open>ServeHTTP\<close> of main.go. The handler struct is empty: there is no state to pass.\<close>

definition ServeHTTP_v :: "xml_tokenizer \<Rightarrow> ResponseWriter \<Rightarrow> Request \<Rightarrow> ResponseWriter" where
  "ServeHTTP_v tok w r =
     (if URL_Path r \<noteq> uploadPath then writeNotFound w
      else if Method r \<noteq> http_MethodPost then WriteHeader http_StatusMethodNotAllowed w
      else let contentType = Values_Get (Header r) ''Content-Type''
        in if contentType \<noteq> contentTypeTextXML \<and> contentType \<noteq> contentTypeApplicationXML
           then WriteHeader http_StatusBadRequest w
           else handleUpload_v tok w r)"

subsection \<open>The decoder of encoding/xml on a fragment of XML\<close>

text \<open>
  encoding/xml belongs to the Go standard library and is not among the sources. What
  follows models its tokenizer (\<^verbatim>\<open>Decoder.Token\<close>, with \<^verbatim>\<open>Strict\<close> set, as
  \<^verbatim>\<open>NewDecoder\<close> leaves it) and the way \<^verbatim>\<open>Decode\<close> drives it, after the library's
  documented behaviour, on documents made of start tags, end tags and self-closing tags
  without attributes, with ASCII names without a colon, and of character data in ASCII
  without \<open>&\<close>. On anything else (attributes, entities, comments, processing
  instructions, directives, CDATA sections, name spaces, bytes above 127) the model gives
  no answer: the outcome \<open>NotModelled\<close>. Where it does answer, it answers as the
  library does, up to the text of the error, which the handler never reads.
\<close>

datatype 'a outcome = Ok 'a | Fail error | NotModelled

datatype token = StartElement string | SelfClosing string | EndElement string | CharData string

text \<open>
  The character classes: \<^verbatim>\<open>Decoder.space\<close> skips blank, CR, LF and TAB; a name is a run
  of name bytes that starts with a letter or an underscore; character data may hold TAB,
  LF, CR and everything from the blank on.
\<close>

definition isSpace :: "char \<Rightarrow> bool" where
  "isSpace c = (c = CHR '' '' \<or> c = CHR 0x0D \<or> c = CHR 0x0A \<or> c = CHR 0x09)"

definition isNameByte :: "char \<Rightarrow> bool" where
  "isNameByte c =
     (let n = (of_char c :: nat)
      in 65 \<le> n \<and> n \<le> 90 \<or> 97 \<le> n \<and> n \<le> 122 \<or> 48 \<le> n \<and> n \<le> 57
         \<or> c = CHR ''_'' \<or> c = CHR '':'' \<or> c = CHR ''.'' \<or> c = CHR ''-'')"

definition nonASCII :: "char \<Rightarrow> bool" where
  "nonASCII c = (128 \<le> (of_char c :: nat))"

definition isNameStart :: "char \<Rightarrow> bool" where
  "isNameStart c =
     (let n = (of_char c :: nat)
      in 65 \<le> n \<and> n \<le> 90 \<or> 97 \<le> n \<and> n \<le> 122 \<or> c = CHR ''_'')"

definition isInCharacterRange :: "char \<Rightarrow> bool" where
  "isInCharacterRange c =
     (let n = (of_char c :: nat) in n = 9 \<or> n = 10 \<or> n = 13 \<or> 32 \<le> n)"

text \<open>
  Character data may not contain \<open>]]>\<close>, and CR LF and a lone CR are rewritten to LF;
  \<open>b1\<close> is the byte read before, as in \<^verbatim>\<open>Decoder.text\<close>.
\<close>

fun has_cdata_end :: "string \<Rightarrow> bool" where
  "has_cdata_end (b0 # b1 # b # bs) =
     (b0 = CHR '']'' \<and> b1 = CHR '']'' \<and> b = CHR ''>'' \<or> has_cdata_end (b1 # b # bs))"
| "has_cdata_end bs = False"

fun rewrite_cr :: "char \<Rightarrow> string \<Rightarrow> string" where
  "rewrite_cr b1 [] = []"
| "rewrite_cr b1 (b # bs) =
     (if b = CHR 0x0D then CHR 0x0A # rewrite_cr b bs
      else if b1 = CHR 0x0D \<and> b = CHR 0x0A then rewrite_cr b bs
      else b # rewrite_cr b bs)"

text \<open>
  \<^verbatim>\<open>Decoder.name\<close>: the name, and the input after it. The byte after the name is read
  too, so a name at the very end of the input is an error; \<open>eof\<close> is the error with which
  the input ends.
\<close>

definition scan_name :: "error \<Rightarrow> string \<Rightarrow> (string \<times> string) outcome" where
  "scan_name eof inp =
     (let run = takeWhile (\<lambda>c. isNameByte c \<or> nonASCII c) inp;
          rest = dropWhile (\<lambda>c. isNameByte c \<or> nonASCII c) inp
      in if list_ex (\<lambda>c. nonASCII c \<or> c = CHR '':'') run then NotModelled
         else if rest = [] then Fail eof
         else (case run of
                 [] \<Rightarrow> Fail (Err ''expected element name'')
               | c # _ \<Rightarrow> if isNameStart c then Ok (run, rest)
                          else Fail (Err ''invalid XML name'')))"

text \<open>
  \<^verbatim>\<open>Decoder.rawToken\<close>: character data up to the next \<open><\<close> or the end of the input, or
  one tag. A self-closing tag is a token of its own here; the library returns its start
  element and, at the next call, its end element.
\<close>

definition text_token :: "string \<Rightarrow> (token \<times> string) outcome" where
  "text_token inp =
     (let t = takeWhile (\<lambda>c. c \<noteq> CHR ''<'') inp;
          rest = dropWhile (\<lambda>c. c \<noteq> CHR ''<'') inp
      in if list_ex (\<lambda>c. c = CHR ''&'' \<or> nonASCII c) t then NotModelled
         else if has_cdata_end t then Fail (Err ''unescaped ]]> not in CDATA section'')
         else if list_ex (\<lambda>c. \<not> isInCharacterRange c) t then Fail (Err ''illegal character code'')
         else Ok (CharData (rewrite_cr (CHR 0x00) t), rest))"

definition start_tag :: "error \<Rightarrow> string \<Rightarrow> (token \<times> string) outcome" where
  "start_tag eof inp =
     (case scan_name eof inp of
        NotModelled \<Rightarrow> NotModelled
      | Fail e \<Rightarrow> Fail e
      | Ok (name, rest) \<Rightarrow>
          (case dropWhile isSpace rest of
             [] \<Rightarrow> Fail eof
           | b # bs \<Rightarrow>
               if b = CHR ''>'' then Ok (StartElement name, bs)
               else if b = CHR ''/'' then
                 (case bs of
                    [] \<Rightarrow> Fail eof
                  | b2 # bs2 \<Rightarrow>
                      if b2 = CHR ''>'' then Ok (SelfClosing name, bs2)
                      else Fail (Err ''expected /> in element''))
               else NotModelled))"

definition end_tag :: "error \<Rightarrow> string \<Rightarrow> (token \<times> string) outcome" where
  "end_tag eof inp =
     (case scan_name eof inp of
        NotModelled \<Rightarrow> NotModelled
      | Fail e \<Rightarrow> Fail e
      | Ok (name, rest) \<Rightarrow>
          (case dropWhile isSpace rest of
             [] \<Rightarrow> Fail eof
           | b # bs \<Rightarrow>
               if b = CHR ''>'' then Ok (EndElement name, bs)
               else Fail (Err ''invalid characters between </ and >'')))"

definition rawToken :: "error \<Rightarrow> string \<Rightarrow> (token \<times> string) outcome" where
  "rawToken eof inp =
     (case inp of
        [] \<Rightarrow> Fail eof
      | b # bs \<Rightarrow>
          if b \<noteq> CHR ''<'' then text_token inp
          else (case bs of
                  [] \<Rightarrow> Fail eof
                | b2 # bs2 \<Rightarrow>
                    if b2 = CHR ''/'' then end_tag eof bs2
                    else if b2 = CHR ''?'' \<or> b2 = CHR ''!'' then NotModelled
                    else start_tag eof bs))"

text \<open>
  \<^verbatim>\<open>Decode\<close> for the struct \<^verbatim>\<open>xmlPayload\<close>: tokens are skipped up to the first start
  element, the root; then tokens are read up to the end element of the root, and
  \<^verbatim>\<open>Decode\<close> returns without reading further. \<open>stk\<close> is the stack of open elements
  (\<^verbatim>\<open>Decoder.Token\<close> rejects an end element that does not close the innermost one),
  \<open>data\<close> the character data found directly in the open child of the root, \<open>acc\<close> the
  children of the root found so far, each with its character data. The result is the
  list of children and the input left unread.
\<close>

function first_element ::
  "error \<Rightarrow> string list \<Rightarrow> string \<Rightarrow> (string \<times> string) list \<Rightarrow> string
     \<Rightarrow> ((string \<times> string) list \<times> string) outcome" where
  "first_element eof stk data acc inp =
     (case rawToken eof inp of
        NotModelled \<Rightarrow> NotModelled
      | Fail e \<Rightarrow> Fail e
      | Ok (tok, rest) \<Rightarrow>
          (case tok of
             CharData t \<Rightarrow>
               first_element eof stk (if length stk = 2 then data @ t else data) acc rest
           | StartElement n \<Rightarrow>
               first_element eof (n # stk) (if length stk = 1 then [] else data) acc rest
           | SelfClosing n \<Rightarrow>
               (case stk of
                  [] \<Rightarrow> Ok ([], rest)
                | [root] \<Rightarrow> first_element eof stk data (acc @ [(n, [])]) rest
                | _ \<Rightarrow> first_element eof stk data acc rest)
           | EndElement n \<Rightarrow>
               (case stk of
                  [] \<Rightarrow> Fail (Err ''unexpected end element'')
                | opened # below \<Rightarrow>
                    if opened \<noteq> n then Fail (Err ''element closed by another end element'')
                    else (case below of
                            [] \<Rightarrow> Ok (acc, rest)
                          | [root] \<Rightarrow> first_element eof below [] (acc @ [(opened, data)]) rest
                          | _ \<Rightarrow> first_element eof below data acc rest))))"
  by pat_completeness auto
termination
proof -
  have nm: "length rest \<le> length inp" if "scan_name eof inp = Ok (n, rest)"
    for eof inp n rest
    using that length_dropWhile_le [of "\<lambda>c. isNameByte c \<or> nonASCII c" inp]
    by (auto simp: scan_name_def Let_def split: if_splits list.splits)
  have tg: "length rest \<le> length inp"
    if "start_tag eof inp = Ok (tok, rest) \<or> end_tag eof inp = Ok (tok, rest)"
    for eof inp tok rest
  proof -
    from that obtain n r where n: "scan_name eof inp = Ok (n, r)"
      and r: "\<exists>pre. dropWhile isSpace r = pre @ rest"
      by (auto simp: start_tag_def end_tag_def split: outcome.splits list.splits if_splits)
    from r obtain pre where "dropWhile isSpace r = pre @ rest" ..
    then have "length rest \<le> length (dropWhile isSpace r)" by simp
    also have "\<dots> \<le> length r" by (rule length_dropWhile_le)
    also have "\<dots> \<le> length inp" using n by (rule nm)
    finally show ?thesis .
  qed
  have tx: "length rest < length inp"
    if "text_token inp = Ok (tok, rest)" "inp = b # bs" "b \<noteq> CHR ''<''"
    for inp tok rest b bs
    using that length_dropWhile_le [of "\<lambda>c. c \<noteq> CHR ''<''" bs]
    by (auto simp: text_token_def Let_def split: if_splits)
  have shorter: "length rest < length inp" if "rawToken eof inp = Ok (tok, rest)"
    for eof inp tok rest
    using that tx [of inp tok rest] tg [of eof _ tok rest]
    by (fastforce simp: rawToken_def split: list.splits if_splits)
  show ?thesis
    by (relation "measure (\<lambda>(eof, stk, data, acc, inp). length inp)")
       (auto dest: shorter)
qed

declare first_element.simps [simp del]

text \<open>
  The tokenizer that \<^verbatim>\<open>handleUpload\<close> runs on the request body, where the model
  answers; a read error of the body is the error with which the input ends.
\<close>

definition eof_error :: "reader \<Rightarrow> error" where
  "eof_error rd = (case rerr rd of None \<Rightarrow> Err ''EOF'' | Some e \<Rightarrow> e)"

definition xml_first_element :: "reader \<Rightarrow> (error + (string \<times> string) list) option" where
  "xml_first_element rd =
     (case first_element (eof_error rd) [] [] [] (rdata rd) of
        Ok (elems, rest) \<Rightarrow> Some (Inr elems)
      | Fail e \<Rightarrow> Some (Inl e)
      | NotModelled \<Rightarrow> None)"


definition ServeHTTP_xml :: "ResponseWriter \<Rightarrow> Request \<Rightarrow> ResponseWriter option" where
  "ServeHTTP_xml w r =
     (case xml_first_element (Body r) of
        None \<Rightarrow> None
      | Some res \<Rightarrow> Some (ServeHTTP_v (\<lambda>rd. res) w r))"

section \<open>The persisting program\<close>

subsection \<open>The blob store\<close>

text \<open>
  Modelled from the spec: the object-storage client (minio-go) is an external
  collaborator, "an opaque key-value blob store with get/put operations" addressed by
  bucket and key. Whether an operation fails is decided outside the program: the
  record \<open>faults\<close> is what the environment decides for one request. The client logs the
  operations it is asked for in \<open>calls\<close>.
\<close>

datatype cli_call = PutCall string string bytes | GetCall string string

record minio_Client =
  objects :: "string \<times> string \<rightharpoonup> bytes"
  calls :: "cli_call list"

record faults =
  put_err :: "error option"
  get_err :: "error option"
  read_err :: "(bytes \<times> error) option"

definition PutObject ::
  "faults \<Rightarrow> minio_Client \<Rightarrow> string \<Rightarrow> string \<Rightarrow> bytes \<Rightarrow> minio_Client \<times> error option" where
  "PutObject f c bucket key data =
     (let c1 = c\<lparr>calls := calls c @ [PutCall bucket key data]\<rparr>
      in case put_err f of
           Some e \<Rightarrow> (c1, Some e)
         | None \<Rightarrow> (c1\<lparr>objects := (objects c1)((bucket, key) \<mapsto> data)\<rparr>, None))"

text \<open>
  A get returns an error, or the object as a reader. Draining the reader gives the
  stored bytes; it ends in an error when the environment breaks the transfer (after
  the bytes it let through) and when there is no object under the key.
\<close>

definition GetObject ::
  "faults \<Rightarrow> minio_Client \<Rightarrow> string \<Rightarrow> string \<Rightarrow> minio_Client \<times> (error + reader)" where
  "GetObject f c bucket key =
     (let c1 = c\<lparr>calls := calls c @ [GetCall bucket key]\<rparr>
      in case get_err f of
           Some e \<Rightarrow> (c1, Inl e)
         | None \<Rightarrow>
             (c1, Inr (case read_err f of
                         Some (part, e) \<Rightarrow> Reader part (Some e)
                       | None \<Rightarrow>
                           (case objects c (bucket, key) of
                              None \<Rightarrow> Reader [] (Some (Err ''NoSuchKey''))
                            | Some d \<Rightarrow> Reader d None))))"

subsection \<open>The handler\<close>

text \<open>\<^verbatim>\<open>reqCount\<close> is an \<^verbatim>\<open>atomic.Int64\<close>: a 64-bit word, read as two's complement.\<close>

record xmlParseHandler =
  cli :: minio_Client
  reqCount :: "64 word"

definition newXMLParseHandler :: "minio_Client \<Rightarrow> xmlParseHandler" where
  "newXMLParseHandler c = \<lparr>cli = c, reqCount = 0\<rparr>"

definition httpWrite :: "ResponseWriter \<Rightarrow> nat \<Rightarrow> bytes \<Rightarrow> ResponseWriter" where
  "httpWrite w statusCode data =
     (let w1 = WriteHeader statusCode w
      in if length data > 0 then Write data w1 else w1)"

text \<open>\<^verbatim>\<open>reqCount.Add(1)\<close> stores the sum and returns it.\<close>

definition composeBucketID :: "xmlParseHandler \<Rightarrow> xmlParseHandler \<times> string" where
  "composeBucketID xph =
     (let n = reqCount xph + 1
      in (xph\<lparr>reqCount := n\<rparr>, ''xmlobject/'' @ show_int (sint n)))"

definition handleUpload ::
  "faults \<Rightarrow> xmlParseHandler \<Rightarrow> ResponseWriter \<Rightarrow> Request \<Rightarrow> xmlParseHandler \<times> ResponseWriter" where
  "handleUpload f xph w r =
     (if Method r \<noteq> http_MethodPost then (xph, WriteHeader http_StatusMethodNotAllowed w)
      else let contentType = Values_Get (Header r) ''Content-Type''
        in if contentType \<noteq> contentTypeTextXML \<and> contentType \<noteq> contentTypeApplicationXML
           then (xph, WriteHeader http_StatusBadRequest w)
           else case io_ReadAll (Body r) of
                  (rawXML, Some err) \<Rightarrow>
                    (xph, httpWrite w http_StatusInternalServerError
                            ''failed to read content from body'')
                | (rawXML, None) \<Rightarrow>
                    (case composeBucketID xph of
                       (xph1, bucketID) \<Rightarrow>
                         (case PutObject f (cli xph1) ''bucket1'' bucketID rawXML of
                            (c, Some err) \<Rightarrow>
                              (xph1\<lparr>cli := c\<rparr>,
                               httpWrite w http_StatusInternalServerError
                                 ''failed to upload object'')
                          | (c, None) \<Rightarrow>
                              (xph1\<lparr>cli := c\<rparr>, httpWrite w http_StatusOK bucketID))))"

text \<open>
  In \<^verbatim>\<open>handleRead\<close> the branch for a failed \<^verbatim>\<open>io.ReadAll\<close> has no \<^verbatim>\<open>return\<close>: control
  goes on to the last \<^verbatim>\<open>httpWrite\<close>.
\<close>

definition handleRead ::
  "faults \<Rightarrow> xmlParseHandler \<Rightarrow> ResponseWriter \<Rightarrow> Request \<Rightarrow> xmlParseHandler \<times> ResponseWriter" where
  "handleRead f xph w r =
     (if Method r \<noteq> http_MethodGet then (xph, WriteHeader http_StatusMethodNotAllowed w)
      else let w1 = Header_Set ''Content-Type'' contentTypeApplicationXML w;
               bucketID = Values_Get (URL_Query r) ''bucket_id''
        in if bucketID = [] then (xph, httpWrite w1 http_StatusBadRequest ''bucket_id is required'')
           else case GetObject f (cli xph) ''bucket1'' bucketID of
                  (c, Inl err) \<Rightarrow>
                    (xph\<lparr>cli := c\<rparr>,
                     httpWrite w1 http_StatusInternalServerError ''failed to get object'')
                | (c, Inr obj) \<Rightarrow>
                    (case io_ReadAll obj of
                       (data, err) \<Rightarrow>
                         (let w2 = (case err of
                                      Some e \<Rightarrow> httpWrite w1 http_StatusInternalServerError
                                                 ''failed to read object''
                                    | None \<Rightarrow> w1)
                          in (xph\<lparr>cli := c\<rparr>, httpWrite w2 http_StatusOK data))))"

definition ServeHTTP ::
  "faults \<Rightarrow> xmlParseHandler \<Rightarrow> ResponseWriter \<Rightarrow> Request \<Rightarrow> xmlParseHandler \<times> ResponseWriter" where
  "ServeHTTP f xph w r =
     (if URL_Path r = uploadPath then handleUpload f xph w r
      else if URL_Path r = readFilePath then handleRead f xph w r
      else (xph, writeNotFound w))"

subsection \<open>Sequential runs\<close>

text \<open>
  The server gives every request a fresh response writer. A sequential run serves the
  requests one after the other, each with the faults the environment decides for it,
  and collects the responses.
\<close>

fun run ::
  "xmlParseHandler \<Rightarrow> (faults \<times> Request) list \<Rightarrow> xmlParseHandler \<times> ResponseWriter list" where
  "run xph [] = (xph, [])"
| "run xph (x # xs) =
     (case ServeHTTP (fst x) xph new_ResponseWriter (snd x) of
        (xph1, w) \<Rightarrow> (case run xph1 xs of (xph2, ws) \<Rightarrow> (xph2, w # ws)))"

text \<open>The requests that reach \<^verbatim>\<open>composeBucketID\<close>.\<close>

definition mints :: "Request \<Rightarrow> bool" where
  "mints r =
     (URL_Path r = uploadPath \<and> Method r = http_MethodPost
      \<and> (Values_Get (Header r) ''Content-Type'' = contentTypeTextXML
         \<or> Values_Get (Header r) ''Content-Type'' = contentTypeApplicationXML)
      \<and> rerr (Body r) = None)"

definition no_faults :: faults where
  "no_faults = \<lparr>put_err = None, get_err = None, read_err = None\<rparr>"

text \<open>Concrete requests, stores and faults, for evaluating the handlers.\<close>

definition empty_client :: minio_Client where
  "empty_client = \<lparr>objects = Map.empty, calls = []\<rparr>"

definition upload_req :: "bytes \<Rightarrow> Request" where
  "upload_req b =
     \<lparr>Method = ''POST'', URL_Path = ''/upload'',
      Header = [''Content-Type'' \<mapsto> [''text/xml'']], URL_Query = Map.empty,
      Body = Reader b None\<rparr>"

definition read_req :: "string \<Rightarrow> Request" where
  "read_req k =
     \<lparr>Method = ''GET'', URL_Path = ''/read'', Header = Map.empty,
      URL_Query = [''bucket_id'' \<mapsto> [k]], Body = Reader [] None\<rparr>"

definition put_fails :: faults where
  "put_fails = \<lparr>put_err = Some (Err ''connection refused''), get_err = None, read_err = None\<rparr>"

definition get_fails :: faults where
  "get_fails = \<lparr>put_err = None, get_err = Some (Err ''connection refused''), read_err = None\<rparr>"

definition read_fails :: "bytes \<Rightarrow> faults" where
  "read_fails part =
     \<lparr>put_err = None, get_err = None, read_err = Some (part, Err ''unexpected EOF'')\<rparr>"


section \<open>Basic facts\<close>

subsection \<open>Number formatting\<close>

lemma sint_of_nat_small: "n < 2 ^ 63 \<Longrightarrow> sint (of_nat n :: 64 word) = int n"
  by (simp add: signed_of_nat signed_take_bit_int_eq_self)

lemma show_int_nat: "show_int (int n) = show_nat n"
  by (simp add: show_int_def)

lemma digit_chars:
  "char_of (48::nat) = CHR ''0''" "char_of (49::nat) = CHR ''1''" "char_of (50::nat) = CHR ''2''"
  "char_of (51::nat) = CHR ''3''" "char_of (52::nat) = CHR ''4''" "char_of (53::nat) = CHR ''5''"
  "char_of (54::nat) = CHR ''6''" "char_of (55::nat) = CHR ''7''" "char_of (56::nat) = CHR ''8''"
  "char_of (57::nat) = CHR ''9''"
  by code_simp+

lemma show_int_small:
  "show_int 1 = ''1''" "show_int 2 = ''2''" "show_int 3 = ''3''"
  by code_simp+

lemma show_nat_small:
  "show_nat (Suc 0) = ''1''" "show_nat 2 = ''2''" "show_nat 3 = ''3''"
  by code_simp+

subsection \<open>Responses on a fresh writer\<close>

lemma resp_WriteHeader_new [simp]:
  "resp_status (WriteHeader c new_ResponseWriter) = c"
  "resp_body (WriteHeader c new_ResponseWriter) = []"
  "superfluous (WriteHeader c new_ResponseWriter) = []"
  by (simp_all add: WriteHeader_def resp_status_def resp_body_def new_ResponseWriter_def)

lemma resp_httpWrite_new [simp]:
  "resp_status (httpWrite new_ResponseWriter c d) = c"
  "resp_body (httpWrite new_ResponseWriter c d) = d"
  "superfluous (httpWrite new_ResponseWriter c d) = []"
  by (simp_all add: httpWrite_def Write_def WriteHeader_def resp_status_def resp_body_def
      new_ResponseWriter_def Let_def)

lemma resp_writeNotFound_new [simp]:
  "resp_status (writeNotFound new_ResponseWriter) = 200"
  "resp_body (writeNotFound new_ResponseWriter) = ''<p>Oops, you walked the wrong path</p>''"
  by (simp_all add: writeNotFound_def Write_def WriteHeader_def resp_status_def resp_body_def
      new_ResponseWriter_def Let_def)

subsection \<open>The counter along a run\<close>

lemma ServeHTTP_reqCount:
  "reqCount (fst (ServeHTTP f xph w r)) = (if mints r then reqCount xph + 1 else reqCount xph)"
  by (cases "Body r")
     (auto simp: ServeHTTP_def handleUpload_def handleRead_def mints_def io_ReadAll_def
        composeBucketID_def PutObject_def GetObject_def Let_def
        split: option.splits prod.splits sum.splits)

lemma fst_run_Cons:
  "fst (run xph (x # xs)) =
     fst (run (fst (ServeHTTP (fst x) xph new_ResponseWriter (snd x))) xs)"
  by (simp split: prod.splits)

lemma snd_run_Cons:
  "snd (run xph (x # xs)) =
     snd (ServeHTTP (fst x) xph new_ResponseWriter (snd x))
       # snd (run (fst (ServeHTTP (fst x) xph new_ResponseWriter (snd x))) xs)"
  by (simp split: prod.splits)

lemma run_reqCount:
  "reqCount (fst (run xph xs)) = reqCount xph + of_nat (length (filter (\<lambda>x. mints (snd x)) xs))"
proof (induction xs arbitrary: xph)
  case Nil
  show ?case by simp
next
  case (Cons x xs)
  show ?case
    unfolding fst_run_Cons Cons.IH ServeHTTP_reqCount by simp
qed

lemma run_nth:
  "i < length xs \<Longrightarrow>
   snd (run xph xs) ! i =
     snd (ServeHTTP (fst (xs ! i)) (fst (run xph (take i xs))) new_ResponseWriter (snd (xs ! i)))"
proof (induction xs arbitrary: xph i)
  case Nil
  then show ?case by simp
next
  case (Cons x xs)
  show ?case
  proof (cases i)
    case 0
    then show ?thesis unfolding snd_run_Cons by simp
  next
    case (Suc j)
    with Cons.prems have "j < length xs" by simp
    from Cons.IH [OF this] Suc show ?thesis
      unfolding snd_run_Cons by (simp add: fst_run_Cons del: run.simps)
  qed
qed

lemma ServeHTTP_mint:
  assumes "mints r"
  shows "put_err f = None \<Longrightarrow>
           resp_status (snd (ServeHTTP f xph new_ResponseWriter r)) = 200
         \<and> resp_body (snd (ServeHTTP f xph new_ResponseWriter r)) =
             ''xmlobject/'' @ show_int (sint (reqCount xph + 1))"
    and "put_err f = Some e \<Longrightarrow>
           resp_status (snd (ServeHTTP f xph new_ResponseWriter r)) = 500
         \<and> resp_body (snd (ServeHTTP f xph new_ResponseWriter r)) = ''failed to upload object''"
  using assms
  by (cases "Body r"; simp add: ServeHTTP_def handleUpload_def mints_def io_ReadAll_def
        composeBucketID_def PutObject_def Let_def)+

text \<open>
  The counter is an \<^verbatim>\<open>int64\<close>: the increment after \<open>2 ^ 63 - 1\<close> wraps around, and the
  key that is minted then has a negative number.
\<close>

lemma show_nat_2_63: "show_nat 9223372036854775808 = ''9223372036854775808''"
  by (simp add: show_nat.simps digit_chars)

lemma composeBucketID_wraps:
  "snd (composeBucketID \<lparr>cli = c, reqCount = 0x7FFFFFFFFFFFFFFF\<rparr>) =
     ''xmlobject/-9223372036854775808''"
  by (simp add: composeBucketID_def show_int_def show_nat_2_63)

subsection \<open>The sample requests\<close>

lemma mints_upload_req: "mints (upload_req b)"
  by (simp add: mints_def upload_req_def Values_Get_def)

lemma not_mints_read_req: "\<not> mints (read_req k)"
  by (simp add: mints_def read_req_def)

lemma reqCount_new: "reqCount (newXMLParseHandler c) = 0"
  by (simp add: newXMLParseHandler_def)

lemma put_err_samples:
  "put_err no_faults = None" "put_err put_fails = Some (Err ''connection refused'')"
  by (simp_all add: no_faults_def put_fails_def)

lemma upload_sample:
  "ServeHTTP no_faults (newXMLParseHandler empty_client) new_ResponseWriter (upload_req b) =
     (\<lparr>cli = \<lparr>objects = [(''bucket1'', ''xmlobject/1'') \<mapsto> b],
               calls = [PutCall ''bucket1'' ''xmlobject/1'' b]\<rparr>, reqCount = 1\<rparr>,
      httpWrite new_ResponseWriter 200 ''xmlobject/1'')"
  by (simp add: ServeHTTP_def handleUpload_def upload_req_def Values_Get_def io_ReadAll_def
        composeBucketID_def PutObject_def no_faults_def newXMLParseHandler_def empty_client_def
        show_int_small)

subsection \<open>Decoding\<close>


subsection \<open>The XML fragment\<close>








lemma tag_not_CharData:
  "start_tag eof inp = Ok (tok, rest) \<Longrightarrow> tok \<noteq> CharData t"
  "end_tag eof inp = Ok (tok, rest) \<Longrightarrow> tok \<noteq> CharData t"
  by (auto simp: start_tag_def end_tag_def split: outcome.splits list.splits if_splits)








text \<open>
  The tokenizer on some bodies.
\<close>

lemmas tok_defs = rawToken_def start_tag_def end_tag_def scan_name_def text_token_def
  isSpace_def isNameByte_def isNameStart_def nonASCII_def isInCharacterRange_def Let_def


lemma xml_samples:
  "xml_first_element (Reader [] None) = Some (Inl (Err ''EOF''))"
  "xml_first_element (Reader ''<a/>'' None) = Some (Inr [])"
  "xml_first_element (Reader ''not xml at all'' None) = Some (Inl (Err ''EOF''))"
  "xml_first_element (Reader ''not xml <x/> at all'' None) = Some (Inr [])"
  "xml_first_element (Reader ''<a><b></a>'' None) =
     Some (Inl (Err ''element closed by another end element''))"
  "xml_first_element (Reader ''<a><UserFrom>x</UserFrom>'' None) = Some (Inl (Err ''EOF''))"
  "xml_first_element (Reader ''<p><UserFrom>a</UserFrom></p>'' None) =
     Some (Inr [(''UserFrom'', ''a'')])"
  "xml_first_element (Reader ''<x><UserTo>b</UserTo></x><unclosed'' None) =
     Some (Inr [(''UserTo'', ''b'')])"
  by (simp_all add: xml_first_element_def eof_error_def first_element.simps tok_defs)

subsection \<open>Upload and read\<close>

lemma upload_200:
  assumes "URL_Path r = uploadPath"
    and "ServeHTTP f xph new_ResponseWriter r = (xph1, w)"
    and "resp_status w = 200"
  shows "objects (cli xph1) (''bucket1'', resp_body w) = Some (rdata (Body r))
       \<and> resp_body w \<noteq> []"
  using assms
  by (cases "Body r")
     (auto simp: ServeHTTP_def handleUpload_def io_ReadAll_def composeBucketID_def
        PutObject_def Let_def split: if_splits option.splits)

lemma read_200:
  assumes "URL_Path r = readFilePath" and "Method r = http_MethodGet"
    and "Values_Get (URL_Query r) ''bucket_id'' = k" and "k \<noteq> []"
    and "get_err f = None" and "read_err f = None"
    and "objects (cli xph) (''bucket1'', k) = Some b"
  shows "resp_status (snd (ServeHTTP f xph new_ResponseWriter r)) = 200
       \<and> resp_body (snd (ServeHTTP f xph new_ResponseWriter r)) = b"
  using assms
  by (simp add: ServeHTTP_def handleRead_def GetObject_def io_ReadAll_def Let_def
        httpWrite_def Write_def WriteHeader_def Header_Set_def resp_status_def resp_body_def
        new_ResponseWriter_def)

text \<open>
  A key under which nothing is stored: the get returns an object, draining it fails,
  and the answer is 500.
\<close>

lemma read_missing_object:
  assumes "URL_Path r = readFilePath" and "Method r = http_MethodGet"
    and "Values_Get (URL_Query r) ''bucket_id'' = k" and "k \<noteq> []"
    and "get_err f = None" and "read_err f = None"
    and "objects (cli xph) (''bucket1'', k) = None"
  shows "resp_status (snd (ServeHTTP f xph new_ResponseWriter r)) = 500
       \<and> resp_body (snd (ServeHTTP f xph new_ResponseWriter r)) = ''failed to read object''"
  using assms
  by (simp add: ServeHTTP_def handleRead_def GetObject_def io_ReadAll_def Let_def
        httpWrite_def Write_def WriteHeader_def Header_Set_def resp_status_def resp_body_def
        new_ResponseWriter_def)

text \<open>
  The two ways a retrieval can fail. When the get fails the handler returns after the
  500. When draining fails it does not: the status stays 500, since the second
  \<^verbatim>\<open>WriteHeader\<close> is ignored, and the bytes read before the error follow the message.
\<close>

lemma read_failures:
  assumes "URL_Path r = readFilePath" and "Method r = http_MethodGet"
    and "Values_Get (URL_Query r) ''bucket_id'' \<noteq> []"
  shows "get_err f = Some e \<Longrightarrow>
           resp_status (snd (ServeHTTP f xph new_ResponseWriter r)) = 500
         \<and> resp_body (snd (ServeHTTP f xph new_ResponseWriter r)) = ''failed to get object''
         \<and> superfluous (snd (ServeHTTP f xph new_ResponseWriter r)) = []"
    and "get_err f = None \<Longrightarrow> read_err f = Some (part, e) \<Longrightarrow>
           resp_status (snd (ServeHTTP f xph new_ResponseWriter r)) = 500
         \<and> resp_body (snd (ServeHTTP f xph new_ResponseWriter r)) =
             ''failed to read object'' @ part
         \<and> superfluous (snd (ServeHTTP f xph new_ResponseWriter r)) = [200]"
  using assms
  by (simp_all add: ServeHTTP_def handleRead_def GetObject_def io_ReadAll_def Let_def
        httpWrite_def Write_def WriteHeader_def Header_Set_def resp_status_def resp_body_def
        new_ResponseWriter_def)

section \<open>The claims\<close>

subsection \<open>C1: the keys of a sequential run\<close>

text \<open>
  C1, as stated, fails: the counter is incremented before the put, so an upload whose
  put fails uses up a number. In the run below the first upload fails at the put and the
  second succeeds: the first successful upload returns the key with number 2, not 1.
\<close>

theorem first_success_after_failed_put:
  "resp_status (snd (run (newXMLParseHandler empty_client)
      [(put_fails, upload_req ''<a/>''), (no_faults, upload_req ''<b/>'')]) ! 0) = 500
   \<and> resp_status (snd (run (newXMLParseHandler empty_client)
      [(put_fails, upload_req ''<a/>''), (no_faults, upload_req ''<b/>'')]) ! 1) = 200
   \<and> resp_body (snd (run (newXMLParseHandler empty_client)
      [(put_fails, upload_req ''<a/>''), (no_faults, upload_req ''<b/>'')]) ! 1) = ''xmlobject/2''
   \<and> resp_body (snd (run (newXMLParseHandler empty_client)
      [(put_fails, upload_req ''<a/>''), (no_faults, upload_req ''<b/>'')]) ! 1) \<noteq> ''xmlobject/1''"
  by (simp add: snd_run_Cons fst_run_Cons ServeHTTP_mint ServeHTTP_reqCount mints_upload_req
        put_err_samples reqCount_new show_int_small del: run.simps(2))

text \<open>
  C1, amended: in a sequential run that starts from a new handler, the \<open>n\<close>-th request
  that reaches the key generator (a POST to /upload with an allowed content type whose
  body was read without error), whether or not its put then succeeds, leaves the counter
  at \<open>n\<close>; when its put succeeds, the response is 200 and its body is the key
  "xmlobject/" followed by the decimal digits of \<open>n\<close>. The counter is an int64, so this
  holds for \<open>n\<close> below \<open>2 ^ 63\<close>.
\<close>

theorem nth_minting_upload_key:
  assumes "i < length xs"
    and "mints (snd (xs ! i))"
    and "n = length (filter (\<lambda>x. mints (snd x)) (take (Suc i) xs))"
    and "n < 2 ^ 63"
  shows "reqCount (fst (run (newXMLParseHandler c) (take (Suc i) xs))) = of_nat n
       \<and> (put_err (fst (xs ! i)) = None \<longrightarrow>
            resp_status (snd (run (newXMLParseHandler c) xs) ! i) = 200
          \<and> resp_body (snd (run (newXMLParseHandler c) xs) ! i) = ''xmlobject/'' @ show_nat n)"
proof -
  let ?m = "length (filter (\<lambda>x. mints (snd x)) (take i xs))"
  have tk: "take (Suc i) xs = take i xs @ [xs ! i]"
    using assms(1) by (simp add: take_Suc_conv_app_nth)
  have n: "n = Suc ?m"
    using assms(2,3) by (simp add: tk)
  have before: "reqCount (fst (run (newXMLParseHandler c) (take i xs))) = of_nat ?m"
    by (simp add: run_reqCount reqCount_new)
  have after: "reqCount (fst (run (newXMLParseHandler c) (take (Suc i) xs))) = of_nat n"
    by (simp add: run_reqCount reqCount_new assms(3))
  have key: "show_int (sint (of_nat ?m + 1 :: 64 word)) = show_nat n"
  proof -
    have "(of_nat ?m + 1 :: 64 word) = of_nat n" by (simp add: n)
    then show ?thesis
      using assms(4) by (simp only: sint_of_nat_small show_int_nat)
  qed
  have resp: "snd (run (newXMLParseHandler c) xs) ! i =
      snd (ServeHTTP (fst (xs ! i)) (fst (run (newXMLParseHandler c) (take i xs)))
             new_ResponseWriter (snd (xs ! i)))"
    using assms(1) by (rule run_nth)
  show ?thesis
    using after ServeHTTP_mint(1) [OF assms(2), of "fst (xs ! i)"
        "fst (run (newXMLParseHandler c) (take i xs))"]
    by (simp add: resp before key)
qed

text \<open>
  C1, witness: a read request, an upload whose put fails and a successful upload; the
  third request is the second one to reach the key generator and returns "xmlobject/2".
\<close>

theorem nth_minting_upload_key_witness:
  "reqCount (fst (run (newXMLParseHandler empty_client)
      [(no_faults, read_req ''k''), (put_fails, upload_req ''<a/>''),
       (no_faults, upload_req ''<b/>'')])) = 2
   \<and> resp_status (snd (run (newXMLParseHandler empty_client)
      [(no_faults, read_req ''k''), (put_fails, upload_req ''<a/>''),
       (no_faults, upload_req ''<b/>'')]) ! 2) = 200
   \<and> resp_body (snd (run (newXMLParseHandler empty_client)
      [(no_faults, read_req ''k''), (put_fails, upload_req ''<a/>''),
       (no_faults, upload_req ''<b/>'')]) ! 2) = ''xmlobject/2''"
proof -
  let ?xs = "[(no_faults, read_req ''k''), (put_fails, upload_req ''<a/>''),
       (no_faults, upload_req ''<b/>'')]"
  have i: "2 < length ?xs"
    by simp
  have m: "mints (snd (?xs ! 2))"
    by (simp add: mints_upload_req)
  have n: "(2::nat) = length (filter (\<lambda>x. mints (snd x)) (take (Suc 2) ?xs))"
    by (simp add: mints_upload_req not_mints_read_req)
  have b: "(2::nat) < 2 ^ 63"
    by simp
  note t = nth_minting_upload_key [OF i m n b, of empty_client]
  show ?thesis
    using t by (simp add: put_err_samples show_nat_small del: run.simps)
qed

subsection \<open>C3: upload, then read\<close>

text \<open>
  C3, as stated, fails: the upload succeeds with key "xmlobject/1", nothing else touches
  the store, and the read of that key answers 500 because the get itself fails.
\<close>

theorem roundtrip_fails_when_get_fails:
  "resp_status (snd (ServeHTTP no_faults (newXMLParseHandler empty_client) new_ResponseWriter
       (upload_req ''<a><b/></a>''))) = 200
   \<and> resp_body (snd (ServeHTTP no_faults (newXMLParseHandler empty_client) new_ResponseWriter
       (upload_req ''<a><b/></a>''))) = ''xmlobject/1''
   \<and> resp_status (snd (ServeHTTP get_fails
       (fst (ServeHTTP no_faults (newXMLParseHandler empty_client) new_ResponseWriter
          (upload_req ''<a><b/></a>'')))
       new_ResponseWriter (read_req ''xmlobject/1''))) = 500
   \<and> resp_body (snd (ServeHTTP get_fails
       (fst (ServeHTTP no_faults (newXMLParseHandler empty_client) new_ResponseWriter
          (upload_req ''<a><b/></a>'')))
       new_ResponseWriter (read_req ''xmlobject/1''))) = ''failed to get object''"
  by (simp add: upload_sample)
     (simp add: ServeHTTP_def handleRead_def read_req_def Values_Get_def GetObject_def
        get_fails_def httpWrite_def Write_def WriteHeader_def Header_Set_def
        resp_status_def resp_body_def new_ResponseWriter_def Let_def)

text \<open>
  C3, amended: if an upload of the bytes \<open>b\<close> to /upload is answered with status 200 and
  body \<open>k\<close>, the store holds at \<open>k\<close> at the time of the read what it held after the upload,
  and neither the get nor the draining of the object fails, then GET /read with
  \<open>bucket_id = k\<close> is answered with status 200 and body exactly \<open>b\<close>.
\<close>

theorem upload_read_roundtrip:
  assumes "URL_Path r1 = uploadPath"
    and "rdata (Body r1) = b"
    and "ServeHTTP f1 xph new_ResponseWriter r1 = (xph1, w1)"
    and "resp_status w1 = 200"
    and "resp_body w1 = k"
    and "objects (cli xph2) (''bucket1'', k) = objects (cli xph1) (''bucket1'', k)"
    and "URL_Path r2 = readFilePath"
    and "Method r2 = http_MethodGet"
    and "Values_Get (URL_Query r2) ''bucket_id'' = k"
    and "get_err f2 = None"
    and "read_err f2 = None"
  shows "resp_status (snd (ServeHTTP f2 xph2 new_ResponseWriter r2)) = 200
       \<and> resp_body (snd (ServeHTTP f2 xph2 new_ResponseWriter r2)) = b"
proof -
  from upload_200 [OF assms(1,3,4)] assms(2,5)
  have stored: "objects (cli xph1) (''bucket1'', k) = Some b" and ne: "k \<noteq> []"
    by simp_all
  from stored assms(6) have "objects (cli xph2) (''bucket1'', k) = Some b"
    by simp
  from read_200 [OF assms(7,8,9) ne assms(10,11) this] show ?thesis .
qed

text \<open>
  C3, witness: the bytes \<open><a><b/></a>\<close> uploaded to a new handler and read back under
  "xmlobject/1".
\<close>

theorem upload_read_roundtrip_witness:
  "resp_status (snd (ServeHTTP no_faults
       \<lparr>cli = \<lparr>objects = [(''bucket1'', ''xmlobject/1'') \<mapsto> ''<a><b/></a>''],
               calls = [PutCall ''bucket1'' ''xmlobject/1'' ''<a><b/></a>'']\<rparr>, reqCount = 1\<rparr>
       new_ResponseWriter (read_req ''xmlobject/1''))) = 200
   \<and> resp_body (snd (ServeHTTP no_faults
       \<lparr>cli = \<lparr>objects = [(''bucket1'', ''xmlobject/1'') \<mapsto> ''<a><b/></a>''],
               calls = [PutCall ''bucket1'' ''xmlobject/1'' ''<a><b/></a>'']\<rparr>, reqCount = 1\<rparr>
       new_ResponseWriter (read_req ''xmlobject/1''))) = ''<a><b/></a>''"
proof -
  note t = upload_read_roundtrip [OF _ _ upload_sample [of "''<a><b/></a>''"] _ _ refl,
      of "''<a><b/></a>''" "''xmlobject/1''" "read_req ''xmlobject/1''" no_faults]
  show ?thesis
    by (rule t) (simp_all add: upload_req_def read_req_def Values_Get_def no_faults_def)
qed

subsection \<open>C4: method and content type of an upload\<close>

text \<open>
  C4: for every request to /upload, in both programs: a method other than POST is
  answered with 405; a POST whose Content-Type is neither "text/xml" nor
  "application/xml" is answered with 400, whatever the body.
\<close>

theorem upload_rejects:
  assumes "URL_Path r = uploadPath"
  shows "(Method r \<noteq> http_MethodPost \<longrightarrow>
            resp_status (snd (ServeHTTP f xph new_ResponseWriter r)) = 405
          \<and> resp_status (ServeHTTP_v tok new_ResponseWriter r) = 405)
       \<and> (Method r = http_MethodPost
            \<and> Values_Get (Header r) ''Content-Type'' \<noteq> contentTypeTextXML
            \<and> Values_Get (Header r) ''Content-Type'' \<noteq> contentTypeApplicationXML \<longrightarrow>
            resp_status (snd (ServeHTTP f xph new_ResponseWriter r)) = 400
          \<and> resp_status (ServeHTTP_v tok new_ResponseWriter r) = 400)"
  using assms
  by (simp add: ServeHTTP_def ServeHTTP_v_def handleUpload_def)

text \<open>
  C4, witness: a GET to /upload, and a POST with Content-Type "application/json".
\<close>

theorem upload_rejects_witness:
  "resp_status (snd (ServeHTTP no_faults (newXMLParseHandler empty_client) new_ResponseWriter
       ((upload_req ''<a/>'')\<lparr>Method := ''GET''\<rparr>))) = 405
   \<and> map_option resp_status (ServeHTTP_xml new_ResponseWriter
       ((upload_req ''<a/>'')\<lparr>Method := ''GET''\<rparr>)) = Some 405
   \<and> resp_status (snd (ServeHTTP no_faults (newXMLParseHandler empty_client) new_ResponseWriter
       ((upload_req ''<a/>'')\<lparr>Header := [''Content-Type'' \<mapsto> [''application/json'']]\<rparr>))) = 400
   \<and> map_option resp_status (ServeHTTP_xml new_ResponseWriter
       ((upload_req ''<a/>'')\<lparr>Header := [''Content-Type'' \<mapsto> [''application/json'']]\<rparr>)) = Some 400"
  using upload_rejects [of "(upload_req ''<a/>'')\<lparr>Method := ''GET''\<rparr>"
          no_faults "newXMLParseHandler empty_client" "\<lambda>rd. Inr []"]
        upload_rejects [of "(upload_req ''<a/>'')\<lparr>Header := [''Content-Type'' \<mapsto> [''application/json'']]\<rparr>"
          no_faults "newXMLParseHandler empty_client" "\<lambda>rd. Inr []"]
  by (simp add: upload_req_def Values_Get_def ServeHTTP_xml_def xml_samples)

subsection \<open>C5: the validating upload\<close>




subsection \<open>C6: retrieval failures\<close>

text \<open>
  C6 does not hold on the code. When draining the object fails, \<^verbatim>\<open>handleRead\<close> writes
  500 and "failed to read object" and then, for want of a \<^verbatim>\<open>return\<close>, goes on to
  \<^verbatim>\<open>httpWrite(w, http.StatusOK, data)\<close>: a second \<^verbatim>\<open>WriteHeader(200)\<close>, and the bytes read
  before the error appended to the message. Here the object \<open><a><b/></a>\<close> is stored under
  "xmlobject/1" and the transfer breaks after \<open><a>\<close>.
\<close>

theorem read_failure_falls_through:
  "resp_status (snd (ServeHTTP (read_fails ''<a>'')
       (fst (ServeHTTP no_faults (newXMLParseHandler empty_client) new_ResponseWriter
          (upload_req ''<a><b/></a>'')))
       new_ResponseWriter (read_req ''xmlobject/1''))) = 500
   \<and> resp_body (snd (ServeHTTP (read_fails ''<a>'')
       (fst (ServeHTTP no_faults (newXMLParseHandler empty_client) new_ResponseWriter
          (upload_req ''<a><b/></a>'')))
       new_ResponseWriter (read_req ''xmlobject/1''))) = ''failed to read object<a>''
   \<and> superfluous (snd (ServeHTTP (read_fails ''<a>'')
       (fst (ServeHTTP no_faults (newXMLParseHandler empty_client) new_ResponseWriter
          (upload_req ''<a><b/></a>'')))
       new_ResponseWriter (read_req ''xmlobject/1''))) = [200]"
  by (simp add: upload_sample)
     (simp add: ServeHTTP_def handleRead_def read_req_def Values_Get_def GetObject_def
        read_fails_def io_ReadAll_def httpWrite_def Write_def WriteHeader_def Header_Set_def
        resp_status_def resp_body_def new_ResponseWriter_def Let_def)

subsection \<open>C7: a read without bucket_id\<close>

text \<open>
  C7: a GET to /read whose query has no bucket_id, or an empty one, is answered with 400
  and the body "bucket_id is required"; the store client is not called and the handler's
  state is unchanged.
\<close>

theorem read_requires_bucket_id:
  assumes "URL_Path r = readFilePath"
    and "Method r = http_MethodGet"
    and "URL_Query r ''bucket_id'' = None \<or> URL_Query r ''bucket_id'' = Some []
         \<or> (\<exists>vs. URL_Query r ''bucket_id'' = Some ([] # vs))"
  shows "resp_status (snd (ServeHTTP f xph new_ResponseWriter r)) = 400
       \<and> resp_body (snd (ServeHTTP f xph new_ResponseWriter r)) = ''bucket_id is required''
       \<and> calls (cli (fst (ServeHTTP f xph new_ResponseWriter r))) = calls (cli xph)
       \<and> fst (ServeHTTP f xph new_ResponseWriter r) = xph"
proof -
  from assms(3) have "Values_Get (URL_Query r) ''bucket_id'' = []"
    by (auto simp: Values_Get_def)
  with assms(1,2) show ?thesis
    by (simp add: ServeHTTP_def handleRead_def Let_def httpWrite_def Write_def WriteHeader_def
        Header_Set_def resp_status_def resp_body_def new_ResponseWriter_def)
qed

text \<open>
  C7, witness: a query without bucket_id, and a query with an empty bucket_id.
\<close>

theorem read_requires_bucket_id_witness:
  "resp_status (snd (ServeHTTP no_faults (newXMLParseHandler empty_client) new_ResponseWriter
       ((read_req ''k'')\<lparr>URL_Query := Map.empty\<rparr>))) = 400
   \<and> resp_body (snd (ServeHTTP no_faults (newXMLParseHandler empty_client) new_ResponseWriter
       ((read_req ''k'')\<lparr>URL_Query := Map.empty\<rparr>))) = ''bucket_id is required''
   \<and> calls (cli (fst (ServeHTTP no_faults (newXMLParseHandler empty_client) new_ResponseWriter
       ((read_req ''k'')\<lparr>URL_Query := Map.empty\<rparr>)))) = []
   \<and> resp_status (snd (ServeHTTP no_faults (newXMLParseHandler empty_client) new_ResponseWriter
       (read_req []))) = 400
   \<and> calls (cli (fst (ServeHTTP no_faults (newXMLParseHandler empty_client) new_ResponseWriter
       (read_req [])))) = []"
  using read_requires_bucket_id [of "(read_req ''k'')\<lparr>URL_Query := Map.empty\<rparr>"
          no_faults "newXMLParseHandler empty_client"]
        read_requires_bucket_id [of "read_req []" no_faults "newXMLParseHandler empty_client"]
  by (simp add: read_req_def newXMLParseHandler_def empty_client_def)

subsection \<open>C8: unknown paths\<close>

text \<open>
  C8: a request to a path that is not served (other than /upload and /read in the
  persisting program, other than /upload in the validating one) is answered, whatever
  its method, with status 200 and the body "<p>Oops, you walked the wrong path</p>".
\<close>

theorem unknown_path:
  "(URL_Path r \<noteq> uploadPath \<and> URL_Path r \<noteq> readFilePath \<longrightarrow>
      resp_status (snd (ServeHTTP f xph new_ResponseWriter r)) = 200
    \<and> resp_body (snd (ServeHTTP f xph new_ResponseWriter r)) =
        ''<p>Oops, you walked the wrong path</p>'')
   \<and> (URL_Path r \<noteq> uploadPath \<longrightarrow>
      resp_status (ServeHTTP_v tok new_ResponseWriter r) = 200
    \<and> resp_body (ServeHTTP_v tok new_ResponseWriter r) =
        ''<p>Oops, you walked the wrong path</p>'')"
  by (simp add: ServeHTTP_def ServeHTTP_v_def)

text \<open>
  C8, witness: DELETE /foo.
\<close>

theorem unknown_path_witness:
  "resp_status (snd (ServeHTTP no_faults (newXMLParseHandler empty_client) new_ResponseWriter
       ((read_req ''k'')\<lparr>Method := ''DELETE'', URL_Path := ''/foo''\<rparr>))) = 200
   \<and> resp_body (snd (ServeHTTP no_faults (newXMLParseHandler empty_client) new_ResponseWriter
       ((read_req ''k'')\<lparr>Method := ''DELETE'', URL_Path := ''/foo''\<rparr>))) =
        ''<p>Oops, you walked the wrong path</p>''
   \<and> map_option resp_status (ServeHTTP_xml new_ResponseWriter
       ((read_req ''k'')\<lparr>Method := ''DELETE'', URL_Path := ''/foo''\<rparr>)) = Some 200
   \<and> map_option resp_body (ServeHTTP_xml new_ResponseWriter
       ((read_req ''k'')\<lparr>Method := ''DELETE'', URL_Path := ''/foo''\<rparr>)) =
        Some ''<p>Oops, you walked the wrong path</p>''"
  using unknown_path [of "(read_req ''k'')\<lparr>Method := ''DELETE'', URL_Path := ''/foo''\<rparr>"
          no_faults "newXMLParseHandler empty_client" "\<lambda>rd. Inl (Err ''EOF'')"]
  by (simp add: read_req_def ServeHTTP_xml_def xml_samples)

subsection \<open>C9: the method is checked first\<close>

text \<open>
  C9: on /upload, in both programs, a request whose method is not POST and whose
  Content-Type is outside the allow-list is answered with 405, not 400.
\<close>

theorem method_check_first:
  assumes "URL_Path r = uploadPath"
    and "Method r \<noteq> http_MethodPost"
    and "Values_Get (Header r) ''Content-Type'' \<noteq> contentTypeTextXML"
    and "Values_Get (Header r) ''Content-Type'' \<noteq> contentTypeApplicationXML"
  shows "resp_status (snd (ServeHTTP f xph new_ResponseWriter r)) = 405
       \<and> resp_status (snd (ServeHTTP f xph new_ResponseWriter r)) \<noteq> 400
       \<and> resp_status (ServeHTTP_v tok new_ResponseWriter r) = 405
       \<and> resp_status (ServeHTTP_v tok new_ResponseWriter r) \<noteq> 400"
  using assms
  by (simp add: ServeHTTP_def ServeHTTP_v_def handleUpload_def)

text \<open>
  C9, witness: PUT /upload with Content-Type "application/json".
\<close>

theorem method_check_first_witness:
  "resp_status (snd (ServeHTTP no_faults (newXMLParseHandler empty_client) new_ResponseWriter
       ((upload_req ''<a/>'')\<lparr>Method := ''PUT'', Header := [''Content-Type'' \<mapsto> [''application/json'']]\<rparr>))) = 405
   \<and> map_option resp_status (ServeHTTP_xml new_ResponseWriter
       ((upload_req ''<a/>'')\<lparr>Method := ''PUT'', Header := [''Content-Type'' \<mapsto> [''application/json'']]\<rparr>)) = Some 405"
  using method_check_first [of "(upload_req ''<a/>'')\<lparr>Method := ''PUT'', Header := [''Content-Type'' \<mapsto> [''application/json'']]\<rparr>"
          no_faults "newXMLParseHandler empty_client" "\<lambda>rd. Inr []"]
  by (simp add: upload_req_def Values_Get_def ServeHTTP_xml_def xml_samples)

subsection \<open>C10: a failed put uses up a key number\<close>

text \<open>
  C10: an upload that reaches the key generator and whose put fails is answered with 500
  and leaves the counter one higher: nothing rolls it back. Between two successful
  uploads with one such failure in between, the key numbers differ by two.
\<close>

theorem failed_put_consumes_key:
  assumes "mints r1" and "mints r" and "mints r3"
    and "put_err f1 = None" and "put_err f = Some e" and "put_err f3 = None"
  shows "resp_status (snd (ServeHTTP f xph new_ResponseWriter r)) = 500
       \<and> reqCount (fst (ServeHTTP f xph new_ResponseWriter r)) = reqCount xph + 1
       \<and> map resp_status (snd (run xph [(f1, r1), (f, r), (f3, r3)])) = [200, 500, 200]
       \<and> map resp_body (snd (run xph [(f1, r1), (f, r), (f3, r3)])) =
           [''xmlobject/'' @ show_int (sint (reqCount xph + 1)),
            ''failed to upload object'',
            ''xmlobject/'' @ show_int (sint (reqCount xph + 3))]"
  using assms
  by (simp add: snd_run_Cons fst_run_Cons ServeHTTP_mint ServeHTTP_reqCount ac_simps
        del: run.simps(2))

text \<open>
  C10, witness: from a new handler, the three uploads return "xmlobject/1", a 500 and
  "xmlobject/3".
\<close>

theorem failed_put_consumes_key_witness:
  "resp_status (snd (ServeHTTP put_fails (newXMLParseHandler empty_client) new_ResponseWriter
       (upload_req ''<b/>''))) = 500
   \<and> reqCount (fst (ServeHTTP put_fails (newXMLParseHandler empty_client) new_ResponseWriter
       (upload_req ''<b/>''))) = 1
   \<and> map resp_status (snd (run (newXMLParseHandler empty_client)
         [(no_faults, upload_req ''<a/>''), (put_fails, upload_req ''<b/>''),
          (no_faults, upload_req ''<c/>'')])) = [200, 500, 200]
   \<and> map resp_body (snd (run (newXMLParseHandler empty_client)
         [(no_faults, upload_req ''<a/>''), (put_fails, upload_req ''<b/>''),
          (no_faults, upload_req ''<c/>'')])) =
       [''xmlobject/1'', ''failed to upload object'', ''xmlobject/3'']"
proof -
  have ok: "put_err no_faults = None"
    by (simp add: no_faults_def)
  have ko: "put_err put_fails = Some (Err ''connection refused'')"
    by (simp add: put_fails_def)
  note t = failed_put_consumes_key [where xph = "newXMLParseHandler empty_client",
      OF mints_upload_req [of "''<a/>''"] mints_upload_req [of "''<b/>''"]
        mints_upload_req [of "''<c/>''"] ok ko ok]
  show ?thesis
    using t unfolding reqCount_new by (simp add: show_int_small del: run.simps)
qed

end
